theory Spec2Isabelle
  imports Complex_Main "HOL-Library.Multiset"
begin

section \<open>Data model of the Neutron engine\<close>

text \<open>
  The embedding follows the latest generation of the engine, \<^verbatim>\<open>src/neutron.ts\<close> (the
  file the build compiles): the classes \<^verbatim>\<open>GameObject\<close>, \<^verbatim>\<open>Sprite\<close>, \<^verbatim>\<open>Effects\<close>,
  \<^verbatim>\<open>Collision\<close>, \<^verbatim>\<open>Particle\<close>, \<^verbatim>\<open>Platformer\<close>, \<^verbatim>\<open>Game\<close>, \<^verbatim>\<open>Camera\<close> and
  \<^verbatim>\<open>Engine\<close>.

  A JavaScript number is a double. A finite double is a real number, and comparing two
  doubles is comparing the reals; the registry, the constructors and the validation of
  the transparency only store and compare numbers. Where the engine computes (collision
  resolution, velocities, the camera, the frame timing), each operation is the exact one
  followed by the rounding \<open>rnd\<close> to the nearest double, defined below. NaN, the
  infinities, overflow and subnormal results are outside the model.

  Objects live in a store addressed by references, because the registry and the
  collision candidates hold references and compare them by identity
  (\<^verbatim>\<open>includes\<close>, \<^verbatim>\<open>this !== platformer\<close>).

  Left out are the parts no property below reads: costumes, sounds, the renderer, the
  loader (of which the frame driver only needs the count of pending assets), and the
  performance sampler with its \<^verbatim>\<open>fps\<close>, \<^verbatim>\<open>tps\<close> and \<^verbatim>\<open>idealTps\<close> fields.
\<close>

type_synonym ref = nat

text \<open>
  The runtime class of an object is its prototype chain, most derived class first:
  a plain sprite has \<open>[''Sprite'']\<close>, a platformer \<open>[''Platformer'', ''Sprite'']\<close>, a host
  class \<^verbatim>\<open>Player extends Platformer\<close> has \<open>[''Player'', ''Platformer'', ''Sprite'']\<close>.
  The fields \<^verbatim>\<open>id\<close>, \<^verbatim>\<open>x\<close>, \<^verbatim>\<open>y\<close> are named \<open>sid\<close>, \<open>sx\<close>, \<open>sy\<close>.
\<close>

record Effects =
  hidden :: bool
  transparency :: real
  rotation :: real
  isEclipse :: bool

record Sprite =
  classes :: "string list"
  sid :: string
  sx :: real
  sy :: real
  width :: real
  height :: real
  color :: string
  stageLevel :: real
  effects :: Effects

text \<open>
  \<^verbatim>\<open>Platformer extends Sprite\<close>. Every cell of the store has the layout of the most
  derived engine class; in an object that is not an instance of \<^verbatim>\<open>Platformer\<close> the
  added fields are never read.
\<close>

record Platformer = Sprite +
  vx :: real
  vxSpeed :: real
  maxVX :: "real option"
  vy :: real
  vySpeed :: real
  maxVY :: "real option"
  gravityAcc :: real
  hasPlatformerBelow :: bool
  checkAllPlatformers :: bool
  platformersToCheckCollision :: "ref list"

text \<open>
  \<^verbatim>\<open>Particle extends GameObject\<close>: the fields of a game object and the effects. Its
  \<^verbatim>\<open>update()\<close> is the empty method of \<^verbatim>\<open>GameObject\<close>, for host classes to override.
\<close>

record Particle =
  p_id :: string
  p_x :: real
  p_y :: real
  p_width :: real
  p_height :: real
  p_color :: string
  p_effects :: Effects

text \<open>
  The \<^verbatim>\<open>Game\<close> singleton with the object store it refers to: \<open>sprites\<close> is the
  registry array of references, \<open>nextRef\<close> the next unused address.
\<close>

record Game =
  objs :: "ref \<Rightarrow> Platformer"
  nextRef :: ref
  sprites :: "ref list"
  particles :: "Particle list"

datatype error = Error string

datatype 'a one_or_many = One 'a | Many "'a list"

section \<open>Collision\<close>

text \<open>\<^verbatim>\<open>Collision.touching(other)\<close>, with \<open>me\<close> the sprite the helper is bound to.\<close>

definition touching :: "'a Sprite_scheme \<Rightarrow> 'b Sprite_scheme \<Rightarrow> bool" where
  "touching me other \<longleftrightarrow>
     sx me < sx other + width other \<and>
     sx me + width me > sx other \<and>
     sy me < sy other + height other \<and>
     sy me + height me > sy other"


section \<open>Double arithmetic\<close>

text \<open>
  Rounding to the nearest integer, a tie going to the even one.
\<close>

definition round_even :: "real \<Rightarrow> int" where
  "round_even x =
     (let f = \<lfloor>x\<rfloor>; d = x - of_int f
      in if d < 1 / 2 then f
         else if d > 1 / 2 then f + 1
         else if even f then f else f + 1)"

text \<open>
  The nearest double to a positive real: a double has a mantissa of 53 bits, so between
  \<open>2^52 = 4503599627370496\<close> and \<open>2^53 = 9007199254740992\<close> the doubles are the
  integers; any other magnitude is first scaled into that range by a power of two.
\<close>

function rnd_pos :: "real \<Rightarrow> real" where
  "rnd_pos x =
     (if x \<le> 0 then 0
      else if x \<ge> 9007199254740992 then 2 * rnd_pos (x / 2)
      else if x < 4503599627370496 then rnd_pos (x * 2) / 2
      else of_int (round_even x))"
  by pat_completeness auto
termination
proof (relation "measure (\<lambda>x. nat \<bar>\<lfloor>log 2 x\<rfloor> - 52\<bar>)")
  show "wf (measure (\<lambda>x. nat \<bar>\<lfloor>log 2 x\<rfloor> - 52\<bar>))"
    by simp
next
  fix x :: real
  assume pos: "\<not> x \<le> 0" and big: "9007199254740992 \<le> x"
  have p: "(9007199254740992::real) = 2 ^ 53"
    by simp
  have "log 2 x \<ge> 53"
    using big pos unfolding p by (simp add: le_log_iff powr_realpow)
  then have fl: "\<lfloor>log 2 x\<rfloor> \<ge> 53"
    by (simp add: le_floor_iff)
  have "log 2 (x / 2) = log 2 x - 1"
    using pos by (simp add: log_divide)
  then have "\<lfloor>log 2 (x / 2)\<rfloor> = \<lfloor>log 2 x\<rfloor> - 1"
    by simp
  then show "(x / 2, x) \<in> measure (\<lambda>x. nat \<bar>\<lfloor>log 2 x\<rfloor> - 52\<bar>)"
    using fl by simp
next
  fix x :: real
  assume pos: "\<not> x \<le> 0" and small: "x < 4503599627370496"
  have p: "(4503599627370496::real) = 2 ^ 52"
    by simp
  have "log 2 x < 52"
    using small pos unfolding p by (simp add: log_less_iff powr_realpow)
  then have fl: "\<lfloor>log 2 x\<rfloor> \<le> 51"
    by (simp add: floor_less_iff flip: less_le_not_le)
  have "log 2 (x * 2) = log 2 x + 1"
    using pos by (simp add: log_mult)
  then have "\<lfloor>log 2 (x * 2)\<rfloor> = \<lfloor>log 2 x\<rfloor> + 1"
    by simp
  then show "(x * 2, x) \<in> measure (\<lambda>x. nat \<bar>\<lfloor>log 2 x\<rfloor> - 52\<bar>)"
    using fl by simp
qed

declare rnd_pos.simps [simp del]

definition rnd :: "real \<Rightarrow> real" where
  "rnd x = (if x < 0 then - rnd_pos (- x) else rnd_pos x)"

text \<open>
  The four operations of the machine, and \<open>num\<close> for the double that a decimal literal
  of the source (\<^verbatim>\<open>0.1\<close>, \<^verbatim>\<open>0.3\<close>) denotes. Negation, \<^verbatim>\<open>Math.abs\<close> and the
  comparisons are exact on doubles.
\<close>

definition fadd :: "real \<Rightarrow> real \<Rightarrow> real" where
  "fadd a b = rnd (a + b)"

definition fsub :: "real \<Rightarrow> real \<Rightarrow> real" where
  "fsub a b = rnd (a - b)"

definition fmul :: "real \<Rightarrow> real \<Rightarrow> real" where
  "fmul a b = rnd (a * b)"

definition fdiv :: "real \<Rightarrow> real \<Rightarrow> real" where
  "fdiv a b = rnd (a / b)"

definition num :: "real \<Rightarrow> real" where
  "num c = rnd c"

text \<open>
  \<^verbatim>\<open>Collision.touching(other)\<close> as the machine evaluates it: each of the four sums is
  rounded to a double before it is compared. It is \<open>touching\<close> whenever the sums are
  doubles themselves.
\<close>

definition touching_dbl :: "'a Sprite_scheme \<Rightarrow> 'b Sprite_scheme \<Rightarrow> bool" where
  "touching_dbl me other \<longleftrightarrow>
     sx me < fadd (sx other) (width other) \<and>
     fadd (sx me) (width me) > sx other \<and>
     sy me < fadd (sy other) (height other) \<and>
     fadd (sy me) (height me) > sy other"

section \<open>Game registry and constructors\<close>

text \<open>\<^verbatim>\<open>sprite instanceof constructor\<close>: the class occurs in the prototype chain.\<close>

definition instanceof :: "'a Sprite_scheme \<Rightarrow> string \<Rightarrow> bool" where
  "instanceof ob c \<longleftrightarrow> c \<in> set (classes ob)"

text \<open>
  \<^verbatim>\<open>getSpriteById\<close> is \<^verbatim>\<open>this.sprites.filter(...)[0]\<close>: the first match, or
  \<^verbatim>\<open>undefined\<close> (here \<open>None\<close>) when the filtered array is empty.
\<close>

definition getSpriteById :: "Game \<Rightarrow> string \<Rightarrow> ref option" where
  "getSpriteById g i =
     (case filter (\<lambda>r. sid (objs g r) = i) (sprites g) of
        [] \<Rightarrow> None
      | r # _ \<Rightarrow> Some r)"

definition getSpritesByType :: "Game \<Rightarrow> string \<Rightarrow> ref list" where
  "getSpritesByType g c = filter (\<lambda>r. instanceof (objs g r) c) (sprites g)"

text \<open>
  \<^verbatim>\<open>sortSprites\<close> is \<^verbatim>\<open>arr.sort((a, b) => a.getStageLevel() - b.getStageLevel())\<close>.
  The array sort of JavaScript is stable; \<open>sort_key\<close> is the stable insertion sort.
\<close>

definition sortSprites :: "Game \<Rightarrow> ref list \<Rightarrow> ref list" where
  "sortSprites g arr = sort_key (\<lambda>r. stageLevel (objs g r)) arr"

text \<open>\<^verbatim>\<open>if (!this.sprites.includes(sprite)) this.sprites.push(sprite)\<close>\<close>

definition pushIfAbsent :: "ref list \<Rightarrow> ref \<Rightarrow> ref list" where
  "pushIfAbsent arr r = (if r \<in> set arr then arr else arr @ [r])"

definition pushAll :: "ref one_or_many \<Rightarrow> ref list \<Rightarrow> ref list" where
  "pushAll a arr =
     (case a of
        Many rs \<Rightarrow> foldl pushIfAbsent arr rs
      | One r \<Rightarrow> pushIfAbsent arr r)"

definition addNewSprite :: "ref one_or_many \<Rightarrow> Game \<Rightarrow> Game" where
  "addNewSprite a g = g\<lparr>sprites := sortSprites g (pushAll a (sprites g))\<rparr>"

definition deleteSpriteById :: "string \<Rightarrow> Game \<Rightarrow> Game" where
  "deleteSpriteById i g = g\<lparr>sprites := filter (\<lambda>r. sid (objs g r) \<noteq> i) (sprites g)\<rparr>"

text \<open>
  \<^verbatim>\<open>deleteSpritesByType\<close> is
  \<^verbatim>\<open>this.sprites = this.sprites.filter((sprite) => sprite! instanceof type)\<close>.
  The postfix \<^verbatim>\<open>!\<close> is the non-null assertion of TypeScript, erased by the compiler
  (the build has \<^verbatim>\<open>sprite instanceof type\<close>): the filter keeps the instances.
\<close>

definition deleteSpritesByType :: "string \<Rightarrow> Game \<Rightarrow> Game" where
  "deleteSpritesByType c g = g\<lparr>sprites := filter (\<lambda>r. instanceof (objs g r) c) (sprites g)\<rparr>"

text \<open>
  The object a \<^verbatim>\<open>Sprite\<close> constructor initialises. \<open>sub\<close> lists the host classes
  derived from the engine class, most derived first (empty for the engine class itself);
  the fields that \<^verbatim>\<open>Platformer\<close> adds are padding here.
\<close>

definition sprite_fields ::
  "string list \<Rightarrow> string \<Rightarrow> real \<Rightarrow> real \<Rightarrow> real \<Rightarrow> real \<Rightarrow> string \<Rightarrow> real \<Rightarrow> Platformer"
where
  "sprite_fields cs i x y w h c l =
     \<lparr>classes = cs, sid = i, sx = x, sy = y, width = w, height = h, color = c,
      stageLevel = l,
      effects = \<lparr>hidden = False, transparency = 0, rotation = 0, isEclipse = False\<rparr>,
      vx = 0, vxSpeed = 0, maxVX = None, vy = 0, vySpeed = 0, maxVY = None,
      gravityAcc = 0, hasPlatformerBelow = False, checkAllPlatformers = False,
      platformersToCheckCollision = []\<rparr>"

definition already_exists :: "string \<Rightarrow> error" where
  "already_exists i = Error (''Sprite '' @ i @ '' already exists!'')"

text \<open>
  \<^verbatim>\<open>new Sprite(id, x, y, width, height, color, stageLevel)\<close>: throws when
  \<^verbatim>\<open>getGame().getSpriteById(id)\<close> is truthy, otherwise yields a new object at a fresh
  address. The registry array is not written.
\<close>

definition Sprite_new ::
  "string list \<Rightarrow> string \<Rightarrow> real \<Rightarrow> real \<Rightarrow> real \<Rightarrow> real \<Rightarrow> string \<Rightarrow> real \<Rightarrow> Game
     \<Rightarrow> error + ref \<times> Game"
where
  "Sprite_new sub i x y w h c l g =
     (if getSpriteById g i \<noteq> None then Inl (already_exists i)
      else Inr (nextRef g,
                g\<lparr>objs := (objs g)(nextRef g := sprite_fields (sub @ [''Sprite'']) i x y w h c l),
                  nextRef := Suc (nextRef g)\<rparr>))"

text \<open>
  \<^verbatim>\<open>new Platformer(...)\<close>: the \<^verbatim>\<open>super\<close> call, then the defaults of the added fields;
  the candidate list is read from the registry, which is not written either.
\<close>

definition Platformer_new ::
  "string list \<Rightarrow> string \<Rightarrow> real \<Rightarrow> real \<Rightarrow> real \<Rightarrow> real \<Rightarrow> string \<Rightarrow> real \<Rightarrow> Game
     \<Rightarrow> error + ref \<times> Game"
where
  "Platformer_new sub i x y w h c l g =
     (case Sprite_new (sub @ [''Platformer'']) i x y w h c l g of
        Inl e \<Rightarrow> Inl e
      | Inr (r, g1) \<Rightarrow>
          Inr (r, g1\<lparr>objs := (objs g1)(r := (objs g1 r)
                  \<lparr>vx := 0, vxSpeed := 0.5, maxVX := None,
                   vy := 0, vySpeed := 0.5, maxVY := None,
                   gravityAcc := num 0.2, hasPlatformerBelow := False,
                   checkAllPlatformers := True,
                   platformersToCheckCollision := getSpritesByType g1 ''Platformer''\<rparr>)\<rparr>))"

text \<open>\<^verbatim>\<open>Sprite.setId\<close>: the same check as the constructor, then the write.\<close>

definition setId :: "ref \<Rightarrow> string \<Rightarrow> Game \<Rightarrow> error + Game" where
  "setId r v g =
     (if getSpriteById g v \<noteq> None then Inl (already_exists v)
      else Inr (g\<lparr>objs := (objs g)(r := (objs g r)\<lparr>sid := v\<rparr>)\<rparr>))"

text \<open>Constructing \<open>n\<close> sprites with one id in a row, none of them registered.\<close>

fun Sprite_new_times ::
  "nat \<Rightarrow> string \<Rightarrow> real \<Rightarrow> real \<Rightarrow> real \<Rightarrow> real \<Rightarrow> string \<Rightarrow> real \<Rightarrow> Game
     \<Rightarrow> error + ref list \<times> Game"
where
  "Sprite_new_times 0 i x y w h c l g = Inr ([], g)"
| "Sprite_new_times (Suc n) i x y w h c l g =
     (case Sprite_new [] i x y w h c l g of
        Inl e \<Rightarrow> Inl e
      | Inr (r, g1) \<Rightarrow>
          (case Sprite_new_times n i x y w h c l g1 of
             Inl e \<Rightarrow> Inl e
           | Inr (rs, g2) \<Rightarrow> Inr (r # rs, g2)))"

text \<open>Every registered reference has been allocated.\<close>

definition refs_ok :: "Game \<Rightarrow> bool" where
  "refs_ok g \<longleftrightarrow> list_all (\<lambda>r. r < nextRef g) (sprites g)"

text \<open>The empty game of the \<^verbatim>\<open>Game\<close> constructor, over a store with nothing allocated.\<close>

definition Game_new :: Game where
  "Game_new =
     \<lparr>objs = (\<lambda>_. sprite_fields [] [] 0 0 0 0 [] 0), nextRef = 0, sprites = [],
      particles = []\<rparr>"

text \<open>
  The arguments of \<open>addNewSprite\<close> as a list, and a list without its repetitions: every
  element once, at the place of its first occurrence.
\<close>

definition items :: "'a one_or_many \<Rightarrow> 'a list" where
  "items a = (case a of One r \<Rightarrow> [r] | Many rs \<Rightarrow> rs)"

function firsts :: "'a list \<Rightarrow> 'a list" where
  "firsts [] = []"
| "firsts (x # xs) = x # firsts (removeAll x xs)"
  by pat_completeness auto
termination
  by (relation "measure length") (simp_all add: removeAll_filter_not_eq less_Suc_eq_le)

section \<open>Effects\<close>








section \<open>Platformer: velocity writes and friction\<close>

text \<open>
  \<^verbatim>\<open>Number(v.toFixed(1))\<close>: \<^verbatim>\<open>toFixed\<close> takes the sign off, picks the integer \<open>n\<close>
  with \<open>n / 10\<close> nearest to the magnitude of the double, the larger one of two equally
  near, and prints it with the sign; \<^verbatim>\<open>Number\<close> reads the decimal back as the nearest
  double. (From \<open>10^21\<close> on \<^verbatim>\<open>toFixed\<close> prints the number itself; the doubles there
  are integers, which this function leaves unchanged as well.)
\<close>

definition toFixed1 :: "real \<Rightarrow> real" where
  "toFixed1 v =
     (if v < 0 then - rnd (of_int \<lfloor>- v * 10 + 1 / 2\<rfloor> / 10)
      else rnd (of_int \<lfloor>v * 10 + 1 / 2\<rfloor> / 10))"

text \<open>
  \<^verbatim>\<open>setVX\<close>: store, round to one decimal, then the two clamp branches, both guarded by
  \<^verbatim>\<open>this.maxVX !== null\<close>; \<^verbatim>\<open>setVY\<close> is the same on \<open>vy\<close> and \<open>maxVY\<close>.
\<close>

definition setVX :: "real \<Rightarrow> Platformer \<Rightarrow> Platformer" where
  "setVX v p =
     (let p1 = p\<lparr>vx := v\<rparr>;
          p2 = p1\<lparr>vx := toFixed1 (vx p1)\<rparr>
      in case maxVX p2 of
           None \<Rightarrow> p2
         | Some m \<Rightarrow> if vx p2 > m then p2\<lparr>vx := m\<rparr>
                     else if vx p2 < - m then p2\<lparr>vx := - m\<rparr> else p2)"

definition setVY :: "real \<Rightarrow> Platformer \<Rightarrow> Platformer" where
  "setVY v p =
     (let p1 = p\<lparr>vy := v\<rparr>;
          p2 = p1\<lparr>vy := toFixed1 (vy p1)\<rparr>
      in case maxVY p2 of
           None \<Rightarrow> p2
         | Some m \<Rightarrow> if vy p2 > m then p2\<lparr>vy := m\<rparr>
                     else if vy p2 < - m then p2\<lparr>vy := - m\<rparr> else p2)"

text \<open>
  The symmetric clamp of a velocity into the range of a maximum, for stating what the
  setters store.
\<close>

definition clampV :: "real option \<Rightarrow> real \<Rightarrow> real" where
  "clampV mx v =
     (case mx of
        None \<Rightarrow> v
      | Some m \<Rightarrow> if v > m then m else if v < - m then - m else v)"

text \<open>
  \<^verbatim>\<open>addFrictionX(friction)\<close>:
  \<^verbatim>\<open>this.setVX(this.getVX() * friction); if (Math.abs(this.getVX()) < 0.3) this.setVX(0);\<close>
\<close>

definition addFrictionX :: "real \<Rightarrow> Platformer \<Rightarrow> Platformer" where
  "addFrictionX friction p =
     (let p1 = setVX (fmul (vx p) friction) p
      in if \<bar>vx p1\<bar> < num 0.3 then setVX 0 p1 else p1)"

text \<open>A maximum velocity is a magnitude: absent, or not negative.\<close>

definition max_ok :: "real option \<Rightarrow> bool" where
  "max_ok mx = (case mx of None \<Rightarrow> True | Some m \<Rightarrow> 0 \<le> m)"

text \<open>
  A platformer with the defaults of the constructor and an empty candidate list, for
  concrete inputs.
\<close>

definition platformer_fields ::
  "string \<Rightarrow> real \<Rightarrow> real \<Rightarrow> real \<Rightarrow> real \<Rightarrow> Platformer"
where
  "platformer_fields i x y w h =
     (sprite_fields [''Platformer'', ''Sprite''] i x y w h ''#0000ff'' 10)
       \<lparr>vxSpeed := 0.5, vySpeed := 0.5, gravityAcc := num 0.2, checkAllPlatformers := True\<rparr>"

section \<open>Platformer: gravity and jumping\<close>

text \<open>Writes to one object of the store.\<close>

definition upd :: "ref \<Rightarrow> (Platformer \<Rightarrow> Platformer) \<Rightarrow> Game \<Rightarrow> Game" where
  "upd r f g = g\<lparr>objs := (objs g)(r := f (objs g r))\<rparr>"

definition setY :: "ref \<Rightarrow> real \<Rightarrow> Game \<Rightarrow> Game" where
  "setY r v g = upd r (\<lambda>ob. ob\<lparr>sy := v\<rparr>) g"




text \<open>
  The body of the \<^verbatim>\<open>forEach\<close> of \<^verbatim>\<open>doGravity\<close> for one candidate, on the store: every
  read of \<open>this\<close> and of the candidate goes to the store as it is at that moment.
\<close>

definition gravity_collide :: "ref \<Rightarrow> Game \<Rightarrow> ref \<Rightarrow> Game" where
  "gravity_collide me g platformer =
     (if touching_dbl (objs g me) (objs g platformer) \<and> me \<noteq> platformer then
        let g1 = (if vy (objs g me) < 0
                  then setY me (fadd (sy (objs g platformer)) (height (objs g platformer))) g
                  else upd me (\<lambda>ob. ob\<lparr>hasPlatformerBelow := True\<rparr>)
                         (setY me (fsub (sy (objs g platformer)) (height (objs g me))) g));
            g2 = (if touching_dbl (objs g1 me) (objs g1 platformer)
                  then setY me (fadd (sy (objs g1 me)) (num 0.1)) g1 else g1)
        in upd me (setVY 0) g2
      else g)"

definition doGravity :: "ref \<Rightarrow> Game \<Rightarrow> Game" where
  "doGravity me g =
     (let g1 = (if checkAllPlatformers (objs g me)
                then upd me (\<lambda>ob. ob\<lparr>platformersToCheckCollision :=
                                       getSpritesByType g ''Platformer''\<rparr>) g
                else g);
          g2 = upd me (\<lambda>ob. ob\<lparr>hasPlatformerBelow := False\<rparr>) g1;
          g3 = setY me (fadd (sy (objs g2 me)) (vy (objs g2 me))) g2;
          g4 = foldl (gravity_collide me) g3 (platformersToCheckCollision (objs g3 me))
      in if \<not> hasPlatformerBelow (objs g4 me)
         then upd me (setVY (fadd (vy (objs g4 me)) (gravityAcc (objs g4 me)))) g4
         else g4)"

text \<open>
  The steps of \<open>doGravity\<close> as a function of the platformer alone, given the candidates
  other than itself: the collision of one candidate, then the whole call. Every sum and
  difference is the machine's, and every write of \<open>vy\<close> is a \<open>setVY\<close>.
\<close>

definition resolve_candidate :: "Platformer \<Rightarrow> Platformer \<Rightarrow> Platformer" where
  "resolve_candidate self p =
     (if touching_dbl self p then
        let s1 = (if vy self < 0 then self\<lparr>sy := fadd (sy p) (height p)\<rparr>
                  else self\<lparr>sy := fsub (sy p) (height self), hasPlatformerBelow := True\<rparr>);
            s2 = (if touching_dbl s1 p then s1\<lparr>sy := fadd (sy s1) (num 0.1)\<rparr> else s1)
        in setVY 0 s2
      else self)"

definition gravity_steps :: "Platformer list \<Rightarrow> Platformer \<Rightarrow> Platformer" where
  "gravity_steps others self =
     (let s1 = self\<lparr>hasPlatformerBelow := False\<rparr>;
          s2 = s1\<lparr>sy := fadd (sy s1) (vy s1)\<rparr>;
          s3 = foldl resolve_candidate s2 others
      in if hasPlatformerBelow s3 then s3 else setVY (fadd (vy s3) (gravityAcc s3)) s3)"

text \<open>The candidate set \<open>doGravity\<close> works with: refreshed in check-all mode.\<close>

definition candidates :: "ref \<Rightarrow> Game \<Rightarrow> ref list" where
  "candidates me g =
     (if checkAllPlatformers (objs g me) then getSpritesByType g ''Platformer''
      else platformersToCheckCollision (objs g me))"

section \<open>Engine loop\<close>





record Engine =
  fpsCounter :: nat
  tpsCounter :: nat
  lastUpdateTime :: real
  minFrameTime :: real
  accumulatedTime :: real
  maxUpdatesPerFrame :: nat
  enableFrameSkipping :: bool
  framesToSkip :: real
  stopVal :: bool
  hasInited :: bool
  hasLoadedAssets :: bool











text \<open>The frame-skip policy after the loop.\<close>

definition frame_skip :: "Engine \<Rightarrow> Engine" where
  "frame_skip e =
     (if enableFrameSkipping e \<and> accumulatedTime e > fmul (minFrameTime e) (framesToSkip e)
      then e\<lparr>accumulatedTime := 0\<rparr>
      else if accumulatedTime e > fmul (minFrameTime e) 5
      then e\<lparr>accumulatedTime := fmul (minFrameTime e) 5\<rparr>
      else e)"



text \<open>
  Concrete games for the examples: three unregistered sprites with the stage levels
  3, 1, 2; a registry holding a platformer and a plain sprite; a registry holding a
  sprite with the id \<open>''player''\<close>.
\<close>

definition stage_demo :: Game where
  "stage_demo =
     \<lparr>objs = (objs Game_new)
        (0 := sprite_fields [''Sprite''] ''a'' 0 0 1 1 ''#ff0000'' 3,
         1 := sprite_fields [''Sprite''] ''b'' 0 0 1 1 ''#00ff00'' 1,
         2 := sprite_fields [''Sprite''] ''c'' 0 0 1 1 ''#0000ff'' 2),
      nextRef = 3, sprites = [], particles = []\<rparr>"

definition kinds_demo :: Game where
  "kinds_demo =
     \<lparr>objs = (objs Game_new)
        (0 := sprite_fields [''Platformer'', ''Sprite''] ''hero'' 0 0 10 10 ''#0000ff'' 10,
         1 := sprite_fields [''Sprite''] ''tree'' 50 0 10 10 ''#00ff00'' 10),
      nextRef = 2, sprites = [0, 1], particles = []\<rparr>"

definition player_demo :: Game where
  "player_demo =
     \<lparr>objs = (objs Game_new)
        (0 := sprite_fields [''Sprite''] ''player'' 0 0 80 80 ''#0000ff'' 10),
      nextRef = 1, sprites = [0], particles = []\<rparr>"

text \<open>The store after \<^verbatim>\<open>new Sprite("player", 0, 0, 80, 80, "#0000ff", 10)\<close> in the empty game.\<close>

definition player_made :: Game where
  "player_made =
     Game_new\<lparr>objs := (objs Game_new)
        (0 := sprite_fields [''Sprite''] ''player'' 0 0 80 80 ''#0000ff'' 10),
      nextRef := 1\<rparr>"

text \<open>
  Three unregistered sprites of which the first two have the same stage level.
\<close>

definition tie_demo :: Game where
  "tie_demo =
     \<lparr>objs = (objs Game_new)
        (0 := sprite_fields [''Sprite''] ''a'' 0 0 1 1 ''#ff0000'' 1,
         1 := sprite_fields [''Sprite''] ''b'' 0 0 1 1 ''#00ff00'' 1,
         2 := sprite_fields [''Sprite''] ''c'' 0 0 1 1 ''#0000ff'' 0),
      nextRef = 3, sprites = [], particles = []\<rparr>"

text \<open>
  Platformers for the examples: sliding at \<open>vx = 0.25\<close>, without a maximum and with the
  maximum \<open>- 0.1\<close>, and sliding at \<open>vx = 0.5\<close>.
\<close>

definition slide_demo :: Platformer where
  "slide_demo = (platformer_fields ''hero'' 0 0 10 10)\<lparr>vx := 0.25\<rparr>"

definition slide_back_demo :: Platformer where
  "slide_back_demo = slide_demo\<lparr>maxVX := Some (- num 0.1)\<rparr>"

definition brake_demo :: Platformer where
  "brake_demo = (platformer_fields ''hero'' 0 0 10 10)\<lparr>vx := 0.5\<rparr>"

text \<open>
  Games with a platformer falling at its terminal velocity; landing on a platform;
  hitting a platform from beneath; landing where the snap leaves it in contact (height
  1.1 over a platform at 0.1); falling alone with \<open>vy = 0.1\<close> and \<open>gravityAcc = 0.25\<close>;
  standing on a platform; standing over a plain sprite; hanging alone at \<open>y = 0.1\<close>.
\<close>

definition fall_demo :: Game where
  "fall_demo =
     \<lparr>objs = (objs Game_new)
        (0 := (platformer_fields ''hero'' 0 0 10 10)\<lparr>vy := 10, maxVY := Some 10\<rparr>),
      nextRef = 1, sprites = [0], particles = []\<rparr>"

definition land_demo :: Game where
  "land_demo =
     \<lparr>objs = (objs Game_new)
        (0 := (platformer_fields ''hero'' 0 0 10 10)\<lparr>vy := 5\<rparr>,
         1 := platformer_fields ''ground'' 0 12 100 10),
      nextRef = 2, sprites = [0, 1], particles = []\<rparr>"

definition bump_demo :: Game where
  "bump_demo =
     \<lparr>objs = (objs Game_new)
        (0 := (platformer_fields ''hero'' 0 24 10 10)\<lparr>vy := - 5\<rparr>,
         1 := platformer_fields ''ceiling'' 0 10 100 10),
      nextRef = 2, sprites = [0, 1], particles = []\<rparr>"

definition nudge_demo :: Game where
  "nudge_demo =
     \<lparr>objs = (objs Game_new)
        (0 := (platformer_fields ''hero'' 0 (- 1.5) 10 (num 1.1))\<lparr>vy := 1\<rparr>,
         1 := platformer_fields ''ground'' 0 (num 0.1) 100 10),
      nextRef = 2, sprites = [0, 1], particles = []\<rparr>"

definition drift_demo :: Game where
  "drift_demo =
     \<lparr>objs = (objs Game_new)
        (0 := (platformer_fields ''hero'' 0 0 10 10)\<lparr>vy := num 0.1, gravityAcc := 0.25\<rparr>),
      nextRef = 1, sprites = [0], particles = []\<rparr>"












section \<open>Collision: strictness of the overlap test\<close>



section \<open>Registry: insertion keeps the draw order\<close>

lemma set_pushIfAbsent: "set (pushIfAbsent arr r) = insert r (set arr)"
  by (auto simp add: pushIfAbsent_def)

lemma pushIfAbsent_append: "\<exists>ns. pushIfAbsent arr r = arr @ ns"
  by (simp add: pushIfAbsent_def)

lemma foldl_pushIfAbsent_append: "\<exists>ns. foldl pushIfAbsent arr rs = arr @ ns"
proof (induction rs arbitrary: arr)
  case Nil
  show ?case by simp
next
  case (Cons r rs)
  obtain ms where m: "pushIfAbsent arr r = arr @ ms"
    using pushIfAbsent_append by blast
  obtain ns where "foldl pushIfAbsent (pushIfAbsent arr r) rs = pushIfAbsent arr r @ ns"
    using Cons.IH by blast
  with m show ?case by simp
qed

lemma pushAll_append: "\<exists>ns. pushAll a arr = arr @ ns"
  by (cases a) (simp_all add: pushAll_def pushIfAbsent_append foldl_pushIfAbsent_append)

lemma foldl_pushIfAbsent_present: "set rs \<subseteq> set arr \<Longrightarrow> foldl pushIfAbsent arr rs = arr"
  by (induction rs arbitrary: arr) (simp_all add: pushIfAbsent_def)

lemma distinct_foldl_pushIfAbsent: "distinct arr \<Longrightarrow> distinct (foldl pushIfAbsent arr rs)"
  by (induction rs arbitrary: arr) (simp_all add: pushIfAbsent_def)

lemma distinct_pushAll: "distinct arr \<Longrightarrow> distinct (pushAll a arr)"
  by (cases a) (simp_all add: pushAll_def pushIfAbsent_def distinct_foldl_pushIfAbsent)

lemma foldl_pushIfAbsent_firsts:
  "foldl pushIfAbsent arr rs = arr @ firsts (filter (\<lambda>r. r \<notin> set arr) rs)"
proof (induction rs arbitrary: arr)
  case Nil
  show ?case by simp
next
  case (Cons r rs)
  show ?case
  proof (cases "r \<in> set arr")
    case True
    then show ?thesis
      using Cons.IH [of arr] by (simp add: pushIfAbsent_def)
  next
    case False
    have rest: "removeAll r (filter (\<lambda>x. x \<notin> set arr) rs) =
        filter (\<lambda>x. x \<notin> set (arr @ [r])) rs"
      by (auto simp add: removeAll_filter_not_eq intro: filter_cong)
    show ?thesis
      using False Cons.IH [of "arr @ [r]"] by (simp add: pushIfAbsent_def rest)
  qed
qed

lemma pushAll_firsts:
  "pushAll a arr = arr @ firsts (filter (\<lambda>r. r \<notin> set arr) (items a))"
  by (cases a) (simp_all add: pushAll_def items_def foldl_pushIfAbsent_firsts pushIfAbsent_def)

lemma pushAll_present: "set (items a) \<subseteq> set arr \<Longrightarrow> pushAll a arr = arr"
  by (cases a) (simp_all add: pushAll_def items_def pushIfAbsent_def foldl_pushIfAbsent_present)

text \<open>
  C6. After \<open>addNewSprite\<close>, called with one sprite or with an array, the registry is
  the old registry followed by the sprites that were not in it, each once and in the
  order in which the call names them first, stably sorted by stage level: it is sorted
  ascending, and the sprites of any one stage level stand in the order they have in that
  sequence, earlier registrations before later ones. No reference occurs twice if none
  did before, and a call that names only references already present leaves the registry
  the same multiset of references. The examples have the stage levels 3, 1, 2 and sprites
  of equal stage level inserted in both orders.
\<close>

theorem addNewSprite_sorted_stable:
  "sprites (addNewSprite a g) =
     sort_key (\<lambda>r. stageLevel (objs g r))
       (sprites g @ firsts (filter (\<lambda>r. r \<notin> set (sprites g)) (items a))) \<and>
   sorted (map (\<lambda>r. stageLevel (objs g r)) (sprites (addNewSprite a g))) \<and>
   (\<forall>k. filter (\<lambda>r. stageLevel (objs g r) = k) (sprites (addNewSprite a g)) =
        filter (\<lambda>r. stageLevel (objs g r) = k)
          (sprites g @ firsts (filter (\<lambda>r. r \<notin> set (sprites g)) (items a)))) \<and>
   (distinct (sprites g) \<longrightarrow> distinct (sprites (addNewSprite a g))) \<and>
   (set (items a) \<subseteq> set (sprites g) \<longrightarrow>
      mset (sprites (addNewSprite a g)) = mset (sprites g))"
proof -
  have reg: "sprites (addNewSprite a g) =
      sort_key (\<lambda>r. stageLevel (objs g r)) (pushAll a (sprites g))"
    by (simp add: addNewSprite_def sortSprites_def)
  have order: "sprites (addNewSprite a g) =
      sort_key (\<lambda>r. stageLevel (objs g r))
        (sprites g @ firsts (filter (\<lambda>r. r \<notin> set (sprites g)) (items a)))"
    unfolding reg by (simp only: pushAll_firsts)
  have srt: "sorted (map (\<lambda>r. stageLevel (objs g r)) (sprites (addNewSprite a g)))"
    unfolding reg by simp
  have stable: "\<forall>k. filter (\<lambda>r. stageLevel (objs g r) = k) (sprites (addNewSprite a g)) =
        filter (\<lambda>r. stageLevel (objs g r) = k)
          (sprites g @ firsts (filter (\<lambda>r. r \<notin> set (sprites g)) (items a)))"
    unfolding order by (simp only: sort_key_stable) simp
  have dist: "distinct (sprites g) \<longrightarrow> distinct (sprites (addNewSprite a g))"
    unfolding reg by (simp add: distinct_pushAll)
  have same: "set (items a) \<subseteq> set (sprites g) \<longrightarrow>
      mset (sprites (addNewSprite a g)) = mset (sprites g)"
    unfolding reg by (simp add: pushAll_present)
  show ?thesis
    using order srt stable dist same by blast
qed

theorem addNewSprite_sorted_stable_witness:
  "map (\<lambda>r. stageLevel (objs stage_demo r)) [0, 1, 2] = [3, 1, 2] \<and>
   map (\<lambda>r. stageLevel (objs stage_demo r))
     (sprites (addNewSprite (One 2) (addNewSprite (One 1) (addNewSprite (One 0) stage_demo))))
     = [1, 2, 3] \<and>
   sprites (addNewSprite (Many [0, 1, 2]) stage_demo) = [1, 2, 0] \<and>
   map (\<lambda>r. stageLevel (objs tie_demo r)) [0, 1, 2] = [1, 1, 0] \<and>
   sprites (addNewSprite (Many [0, 1, 2]) tie_demo) = [2, 0, 1] \<and>
   sprites (addNewSprite (Many [1, 0, 2, 1]) tie_demo) = [2, 1, 0] \<and>
   sprites (addNewSprite (One 1) (addNewSprite (One 0) tie_demo)) = [0, 1] \<and>
   sprites (addNewSprite (One 0) (addNewSprite (One 1) tie_demo)) = [1, 0] \<and>
   distinct (sprites (addNewSprite (Many [0, 1, 2]) tie_demo)) \<and>
   set (items (Many [1, 0])) \<subseteq> set (sprites (addNewSprite (Many [0, 1, 2]) tie_demo)) \<and>
   sprites (addNewSprite (Many [1, 0]) (addNewSprite (Many [0, 1, 2]) tie_demo)) = [2, 0, 1] \<and>
   mset (sprites (addNewSprite (Many [1, 0]) (addNewSprite (Many [0, 1, 2]) tie_demo))) =
     mset (sprites (addNewSprite (Many [0, 1, 2]) tie_demo))"
  using addNewSprite_sorted_stable
    [of "Many [1, 0]" "addNewSprite (Many [0, 1, 2]) tie_demo"]
  by (simp add: addNewSprite_def sortSprites_def pushAll_def pushIfAbsent_def items_def
      stage_demo_def tie_demo_def Game_new_def sprite_fields_def)

section \<open>Registry: deletion by type\<close>

text \<open>
  C7. \<open>deleteSpritesByType\<close> keeps exactly the sprites that \<open>getSpritesByType\<close>
  returns for the same class and removes all the others: from a registry holding a
  platformer and a plain sprite, deleting by \<open>''Platformer''\<close> leaves the platformer
  and removes the plain sprite.
\<close>

theorem deleteSpritesByType_keeps_instances:
  "sprites (deleteSpritesByType c g) = getSpritesByType g c \<and>
   sprites kinds_demo = [0, 1] \<and>
   instanceof (objs kinds_demo 0) ''Platformer'' \<and>
   \<not> instanceof (objs kinds_demo 1) ''Platformer'' \<and>
   sprites (deleteSpritesByType ''Platformer'' kinds_demo) = [0]"
  by (simp add: deleteSpritesByType_def getSpritesByType_def instanceof_def kinds_demo_def
      Game_new_def sprite_fields_def)

section \<open>Constructors and the identity check\<close>

lemma getSpriteById_None:
  "getSpriteById g i = None \<longleftrightarrow> (\<forall>r \<in> set (sprites g). sid (objs g r) \<noteq> i)"
  by (auto simp add: getSpriteById_def filter_empty_conv filter_eq_Cons_iff
      split: list.splits)

lemma getSpriteById_deleted: "getSpriteById (deleteSpriteById i g) i = None"
  by (simp add: getSpriteById_None deleteSpriteById_def)

lemma Sprite_new_Inr:
  assumes "Sprite_new sub i x y w h c l g = Inr (r, g')"
  shows "r = nextRef g" and "nextRef g' = Suc (nextRef g)" and "sprites g' = sprites g"
    and "particles g' = particles g"
    and "sid (objs g' r) = i" and "\<forall>q. q \<noteq> nextRef g \<longrightarrow> objs g' q = objs g q"
  using assms by (auto simp add: Sprite_new_def sprite_fields_def split: if_splits)

lemma Sprite_new_succeeds:
  "getSpriteById g i = None \<Longrightarrow> \<exists>g'. Sprite_new sub i x y w h c l g = Inr (nextRef g, g')"
  by (simp add: Sprite_new_def)

lemma Platformer_new_Inr:
  assumes "Platformer_new sub i x y w h c l g = Inr (r, g')"
  shows "r = nextRef g" and "sprites g' = sprites g"
  using assms
  by (auto simp add: Platformer_new_def Sprite_new_def split: if_splits)

text \<open>
  C9. When a registered sprite has the id, the constructor throws and so does the
  renaming of any sprite to that id; after \<open>deleteSpriteById\<close> has removed the
  registered sprite, the constructor with the same id returns a new object.
\<close>

theorem duplicate_id_rejected:
  assumes "r0 \<in> set (sprites g)" and "sid (objs g r0) = i"
  shows "Sprite_new sub i x y w h c l g = Inl (already_exists i) \<and>
         setId r i g = Inl (already_exists i) \<and>
         (\<exists>r' g'. Sprite_new sub i x y w h c l (deleteSpriteById i g) = Inr (r', g'))"
proof -
  have present: "getSpriteById g i \<noteq> None"
    using assms by (auto simp add: getSpriteById_None)
  have thrown: "Sprite_new sub i x y w h c l g = Inl (already_exists i)"
    using present by (simp add: Sprite_new_def)
  have renamed: "setId r i g = Inl (already_exists i)"
    using present by (simp add: setId_def)
  have again: "\<exists>r' g'. Sprite_new sub i x y w h c l (deleteSpriteById i g) = Inr (r', g')"
    using Sprite_new_succeeds [OF getSpriteById_deleted [of i g]] by blast
  show ?thesis
    using thrown renamed again by blast
qed

theorem duplicate_id_rejected_witness:
  "0 \<in> set (sprites player_demo) \<and> sid (objs player_demo 0) = ''player'' \<and>
   Sprite_new [] ''player'' 5 5 80 80 ''#ff0000'' 1 player_demo =
     Inl (Error ''Sprite player already exists!'') \<and>
   setId 0 ''player'' player_demo = Inl (Error ''Sprite player already exists!'') \<and>
   (\<exists>r' g'. Sprite_new [] ''player'' 5 5 80 80 ''#ff0000'' 1
       (deleteSpriteById ''player'' player_demo) = Inr (r', g'))"
proof -
  have a: "0 \<in> set (sprites player_demo)" and b: "sid (objs player_demo 0) = ''player''"
    by (simp_all add: player_demo_def sprite_fields_def)
  show ?thesis
    using a b duplicate_id_rejected [OF a b, of "[]" 5 5 80 80 "''#ff0000''" 1 0]
    by (simp add: already_exists_def)
qed

section \<open>Constructors do not register\<close>

lemma Sprite_new_keeps_absent:
  assumes ok: "refs_ok g" and none: "getSpriteById g i = None"
    and new: "Sprite_new sub j x y w h c l g = Inr (r, g')"
  shows "refs_ok g' \<and> getSpriteById g' i = None"
proof -
  note n = Sprite_new_Inr [OF new]
  have lt: "\<forall>q \<in> set (sprites g). q < nextRef g"
    using ok by (simp add: refs_ok_def list_all_iff)
  then have same: "\<forall>q \<in> set (sprites g). objs g' q = objs g q"
    using n(6) by auto
  have "refs_ok g'"
    using lt n(2,3) by (auto simp add: refs_ok_def list_all_iff)
  moreover have "getSpriteById g' i = None"
    using none same n(3) by (simp add: getSpriteById_None)
  ultimately show ?thesis by simp
qed

lemma Sprite_new_times_ok:
  "refs_ok g \<Longrightarrow> getSpriteById g i = None \<Longrightarrow>
   \<exists>g'. Sprite_new_times n i x y w h c l g = Inr ([nextRef g ..< nextRef g + n], g') \<and>
        sprites g' = sprites g \<and> nextRef g' = nextRef g + n \<and>
        (\<forall>q < nextRef g. objs g' q = objs g q) \<and>
        (\<forall>r \<in> set [nextRef g ..< nextRef g + n]. sid (objs g' r) = i)"
proof (induction n arbitrary: g)
  case 0
  then show ?case by simp
next
  case (Suc n)
  obtain g1 where g1: "Sprite_new [] i x y w h c l g = Inr (nextRef g, g1)"
    using Sprite_new_succeeds [OF Suc.prems(2)] by blast
  note n1 = Sprite_new_Inr [OF g1]
  have inv1: "refs_ok g1 \<and> getSpriteById g1 i = None"
    using Sprite_new_keeps_absent [OF Suc.prems g1] .
  have "\<exists>g2. Sprite_new_times n i x y w h c l g1 = Inr ([nextRef g1 ..< nextRef g1 + n], g2) \<and>
        sprites g2 = sprites g1 \<and> nextRef g2 = nextRef g1 + n \<and>
        (\<forall>q < nextRef g1. objs g2 q = objs g1 q) \<and>
        (\<forall>r \<in> set [nextRef g1 ..< nextRef g1 + n]. sid (objs g2 r) = i)"
    using inv1 by (intro Suc.IH) simp_all
  then obtain g2 where g2:
    "Sprite_new_times n i x y w h c l g1 = Inr ([nextRef g1 ..< nextRef g1 + n], g2)"
    "sprites g2 = sprites g1" "nextRef g2 = nextRef g1 + n"
    "\<forall>q < nextRef g1. objs g2 q = objs g1 q"
    "\<forall>r \<in> set [nextRef g1 ..< nextRef g1 + n]. sid (objs g2 r) = i"
    by (elim exE conjE)
  have run: "Sprite_new_times (Suc n) i x y w h c l g =
      Inr (nextRef g # [Suc (nextRef g) ..< Suc (nextRef g) + n], g2)"
    using g1 g2(1) n1(2) by simp
  have lst: "nextRef g # [Suc (nextRef g) ..< Suc (nextRef g) + n] =
      [nextRef g ..< nextRef g + Suc n]"
    by (simp add: upt_conv_Cons)
  have old: "\<forall>q < nextRef g. objs g2 q = objs g q"
    using g2(4) n1(2,6) by auto
  have first: "sid (objs g2 (nextRef g)) = i"
    using g2(4) n1(1,2,5) by auto
  have ids: "\<forall>r \<in> set [nextRef g ..< nextRef g + Suc n]. sid (objs g2 r) = i"
  proof
    fix r
    assume "r \<in> set [nextRef g ..< nextRef g + Suc n]"
    then have "r = nextRef g \<or> r \<in> set [nextRef g1 ..< nextRef g1 + n]"
      using n1(2) by auto
    then show "sid (objs g2 r) = i"
      using first g2(5) by blast
  qed
  show ?case
    using run lst g2(2,3) n1(2,3) old ids by (intro exI [of _ g2]) simp
qed

lemma fresh_not_registered: "refs_ok g \<Longrightarrow> nextRef g \<le> r \<Longrightarrow> r \<notin> set (sprites g)"
  by (auto simp add: refs_ok_def list_all_iff)

text \<open>
  C10. A successful \<open>Sprite\<close> or \<open>Platformer\<close> construction leaves the registry
  array as it was; in a game whose registered references are all allocated, the new
  object is not in the registry, and it is once \<open>addNewSprite\<close> has been called with it.
  When no registered sprite has the id, any number \<open>n\<close> of sprites with that id can be
  constructed in a row: all constructions succeed, they return \<open>n\<close> different objects
  carrying the id, none of them registered, and the registry is unchanged.
\<close>

theorem constructor_leaves_registry:
  "(Sprite_new sub i x y w h c l g = Inr (r, g') \<longrightarrow>
      sprites g' = sprites g \<and>
      (refs_ok g \<longrightarrow> r \<notin> set (sprites g')) \<and>
      r \<in> set (sprites (addNewSprite (One r) g'))) \<and>
   (Platformer_new sub i x y w h c l g = Inr (r, g') \<longrightarrow>
      sprites g' = sprites g \<and> (refs_ok g \<longrightarrow> r \<notin> set (sprites g'))) \<and>
   (refs_ok g \<and> getSpriteById g i = None \<longrightarrow>
      (\<exists>g2. Sprite_new_times n i x y w h c l g = Inr ([nextRef g ..< nextRef g + n], g2) \<and>
            length [nextRef g ..< nextRef g + n] = n \<and>
            distinct [nextRef g ..< nextRef g + n] \<and>
            sprites g2 = sprites g \<and>
            (\<forall>q \<in> set [nextRef g ..< nextRef g + n].
                sid (objs g2 q) = i \<and> q \<notin> set (sprites g2))))"
proof (intro conjI impI)
  assume new: "Sprite_new sub i x y w h c l g = Inr (r, g')"
  show "sprites g' = sprites g"
    using Sprite_new_Inr(3) [OF new] .
  show "r \<in> set (sprites (addNewSprite (One r) g'))"
    by (simp add: addNewSprite_def sortSprites_def pushAll_def set_pushIfAbsent)
next
  assume new: "Sprite_new sub i x y w h c l g = Inr (r, g')" and ok: "refs_ok g"
  show "r \<notin> set (sprites g')"
    using fresh_not_registered [OF ok, of r] Sprite_new_Inr(1,3) [OF new] by simp
next
  assume new: "Platformer_new sub i x y w h c l g = Inr (r, g')"
  show "sprites g' = sprites g"
    using Platformer_new_Inr(2) [OF new] .
next
  assume new: "Platformer_new sub i x y w h c l g = Inr (r, g')" and ok: "refs_ok g"
  show "r \<notin> set (sprites g')"
    using fresh_not_registered [OF ok, of r] Platformer_new_Inr [OF new] by simp
next
  assume hyp: "refs_ok g \<and> getSpriteById g i = None"
  then have ok: "refs_ok g" and none: "getSpriteById g i = None"
    by simp_all
  obtain g2 where g2:
    "Sprite_new_times n i x y w h c l g = Inr ([nextRef g ..< nextRef g + n], g2)"
    "sprites g2 = sprites g"
    "\<forall>q \<in> set [nextRef g ..< nextRef g + n]. sid (objs g2 q) = i"
    using Sprite_new_times_ok [OF ok none, of n x y w h c l] by blast
  have "\<forall>q \<in> set [nextRef g ..< nextRef g + n]. q \<notin> set (sprites g2)"
    using fresh_not_registered [OF ok] g2(2) by simp
  then show "\<exists>g2. Sprite_new_times n i x y w h c l g = Inr ([nextRef g ..< nextRef g + n], g2) \<and>
            length [nextRef g ..< nextRef g + n] = n \<and>
            distinct [nextRef g ..< nextRef g + n] \<and>
            sprites g2 = sprites g \<and>
            (\<forall>q \<in> set [nextRef g ..< nextRef g + n].
                sid (objs g2 q) = i \<and> q \<notin> set (sprites g2))"
    using g2 by (intro exI [of _ g2]) simp
qed

theorem constructor_leaves_registry_witness:
  "Sprite_new [] ''player'' 0 0 80 80 ''#0000ff'' 10 Game_new = Inr (0, player_made) \<and>
   refs_ok Game_new \<and> getSpriteById Game_new ''player'' = None \<and>
   sprites player_made = [] \<and> sprites (addNewSprite (One 0) player_made) = [0] \<and>
   (\<exists>r g'. Platformer_new [] ''player'' 0 0 80 80 ''#0000ff'' 10 player_made = Inr (r, g') \<and>
      sprites g' = []) \<and>
   (\<exists>g2. Sprite_new_times 3 ''player'' 0 0 80 80 ''#0000ff'' 10 Game_new = Inr ([0, 1, 2], g2) \<and>
      sprites g2 = [] \<and> map (\<lambda>q. sid (objs g2 q)) [0, 1, 2] = [''player'', ''player'', ''player''])"
proof -
  have made: "Sprite_new [] ''player'' 0 0 80 80 ''#0000ff'' 10 Game_new = Inr (0, player_made)"
    by (simp add: Sprite_new_def getSpriteById_def Game_new_def player_made_def)
  have ok: "refs_ok Game_new" and none: "getSpriteById Game_new ''player'' = None"
    by (simp_all add: refs_ok_def getSpriteById_def Game_new_def)
  have plat: "\<exists>r g'. Platformer_new [] ''player'' 0 0 80 80 ''#0000ff'' 10 player_made = Inr (r, g')"
    by (simp add: Platformer_new_def Sprite_new_def getSpriteById_def player_made_def
        Game_new_def)
  have upt: "[0 ..< 3] = [0, 1, 2::nat]"
    by (simp add: upt_rec)
  have start: "nextRef Game_new = 0" and reg: "sprites Game_new = []"
    and reg': "sprites player_made = []"
    by (simp_all add: Game_new_def player_made_def)
  have single: "sprites (addNewSprite (One 0) player_made) = [0]"
    by (simp add: addNewSprite_def sortSprites_def pushAll_def pushIfAbsent_def reg')
  show ?thesis
    using made ok none plat single
      constructor_leaves_registry
        [of "[]" "''player''" 0 0 80 80 "''#0000ff''" 10 Game_new 0 player_made 3]
      constructor_leaves_registry
        [of "[]" "''player''" 0 0 80 80 "''#0000ff''" 10 player_made]
    by (auto simp add: upt start reg reg')
qed

section \<open>Effects: the transparency setter\<close>





section \<open>Double arithmetic: evaluation\<close>

text \<open>
  The equations that evaluate the machine's operations on concrete numbers: \<open>rnd\<close> and
  \<open>rnd_pos\<close> unfold on numerals and on fractions of numerals only, so the recursion runs
  as far as its tests are decided.
\<close>

lemma rnd_0: "rnd 0 = 0"
  by (simp add: rnd_def rnd_pos.simps)

lemmas rnd_pos_eval =
  rnd_pos.simps [of 1] rnd_pos.simps [of "numeral k"] rnd_pos.simps [of "1 / numeral l"]
  rnd_pos.simps [of "numeral k / numeral l"] for k l

lemmas rnd_eval =
  rnd_def [of 1] rnd_def [of "- 1"] rnd_def [of "numeral k"] rnd_def [of "- numeral k"]
  rnd_def [of "1 / numeral l"] rnd_def [of "- (1 / numeral l)"]
  rnd_def [of "numeral k / numeral l"] rnd_def [of "- (numeral k / numeral l)"] for k l

lemmas dbl_eval = rnd_0 rnd_eval rnd_pos_eval round_even_def fadd_def fsub_def fmul_def
  fdiv_def num_def

lemma rnd_minus: "rnd (- x) = - rnd x"
  by (cases "x = 0") (auto simp add: rnd_def rnd_pos.simps)

text \<open>
  When the four sums are doubles, the machine's overlap test is the exact one.
\<close>

lemma touching_dbl_exact:
  assumes "rnd (sx b + width b) = sx b + width b" and "rnd (sx a + width a) = sx a + width a"
    and "rnd (sy b + height b) = sy b + height b" and "rnd (sy a + height a) = sy a + height a"
  shows "touching_dbl a b = touching a b"
  using assms by (simp add: touching_dbl_def touching_def fadd_def)

section \<open>Platformer: friction\<close>

lemma toFixed1_0: "toFixed1 0 = 0"
  by (simp add: toFixed1_def rnd_0)

lemma setVX_clamp: "setVX v p = p\<lparr>vx := clampV (maxVX p) (toFixed1 v)\<rparr>"
  by (simp add: setVX_def clampV_def Let_def split: option.splits)


lemma clampV_0: "max_ok mx \<Longrightarrow> clampV mx 0 = 0"
  by (simp add: max_ok_def clampV_def split: option.splits)

lemma clampV_nonneg: "max_ok mx \<Longrightarrow> 0 \<le> v \<Longrightarrow> 0 \<le> clampV mx v \<and> clampV mx v \<le> v"
  by (auto simp add: max_ok_def clampV_def split: option.splits)

lemma friction_general:
  "max_ok (maxVX p) \<Longrightarrow>
   addFrictionX f p =
     p\<lparr>vx := (let r = clampV (maxVX p) (toFixed1 (fmul (vx p) f))
               in if \<bar>r\<bar> < num 0.3 then 0 else r)\<rparr>"
  by (simp add: addFrictionX_def setVX_clamp Let_def clampV_0 toFixed1_0)

lemma friction_quarter:
  assumes ok: "max_ok (maxVX p)" and v: "vx p = 0.25"
  shows "vx (addFrictionX (num 0.9) p) = 0"
proof -
  have r: "toFixed1 (fmul (vx p) (num 0.9)) = num 0.2"
    unfolding v by (simp add: dbl_eval toFixed1_def)
  have pos: "0 \<le> num 0.2" and lt: "num 0.2 < num 0.3"
    by (simp_all add: dbl_eval)
  have "0 \<le> clampV (maxVX p) (num 0.2) \<and> clampV (maxVX p) (num 0.2) \<le> num 0.2"
    by (rule clampV_nonneg [OF ok pos])
  then have small: "\<bar>clampV (maxVX p) (num 0.2)\<bar> < num 0.3"
    using lt by linarith
  have "vx (addFrictionX (num 0.9) p) =
      (let r = clampV (maxVX p) (toFixed1 (fmul (vx p) (num 0.9)))
       in if \<bar>r\<bar> < num 0.3 then 0 else r)"
    by (subst friction_general [OF ok]) simp
  also have "\<dots> = 0"
    unfolding r Let_def using small by (simp only: if_True)
  finally show ?thesis .
qed

text \<open>
  C5 as stated fails for a platformer whose \<open>maxVX\<close> is negative: with \<open>vx = 0.25\<close> and
  \<open>maxVX = - 0.1\<close> the product is stored with a magnitude below 0.3, and the call
  leaves \<open>vx = - 0.1\<close>, not 0, because the clamp of \<open>setVX\<close> also applies to the written 0.
\<close>

theorem addFrictionX_zero_counterexample:
  "vx slide_back_demo = 0.25 \<and>
   \<bar>vx (setVX (fmul (vx slide_back_demo) (num 0.9)) slide_back_demo)\<bar> < num 0.3 \<and>
   vx (addFrictionX (num 0.9) slide_back_demo) = - num 0.1 \<and>
   vx (addFrictionX (num 0.9) slide_back_demo) \<noteq> 0"
  by (simp add: slide_back_demo_def slide_demo_def platformer_fields_def sprite_fields_def
      addFrictionX_def setVX_def toFixed1_def dbl_eval Let_def)

text \<open>
  C5, amended. For every platformer whose \<open>maxVX\<close> is absent or not negative, and every
  friction: \<open>addFrictionX\<close> writes the product of \<open>vx\<close> and the friction, as the
  machine computes it, through \<open>setVX\<close> (rounded to one decimal, then clamped), and if
  the magnitude of the stored value is below 0.3 it leaves \<open>vx\<close> exactly 0, otherwise
  the stored value; no other field changes. In particular \<open>vx = 0.25\<close> and friction
  0.9 leave \<open>vx = 0\<close>.
\<close>

theorem addFrictionX_snaps:
  assumes "max_ok (maxVX p)"
  shows "vx (setVX (fmul (vx p) f) p) = clampV (maxVX p) (toFixed1 (fmul (vx p) f)) \<and>
         addFrictionX f p =
           p\<lparr>vx := (if \<bar>vx (setVX (fmul (vx p) f) p)\<bar> < num 0.3 then 0
                     else vx (setVX (fmul (vx p) f) p))\<rparr> \<and>
         (vx p = 0.25 \<longrightarrow> vx (addFrictionX (num 0.9) p) = 0)"
  using friction_general [OF assms, of f] friction_quarter [OF assms]
  by (simp add: setVX_clamp Let_def)

theorem addFrictionX_snaps_witness:
  "max_ok (maxVX slide_demo) \<and> vx slide_demo = 0.25 \<and>
   vx (setVX (fmul (vx slide_demo) (num 0.9)) slide_demo) = num 0.2 \<and>
   vx (addFrictionX (num 0.9) slide_demo) = 0 \<and>
   addFrictionX (num 0.9) slide_demo = slide_demo\<lparr>vx := 0\<rparr> \<and>
   max_ok (maxVX brake_demo) \<and> vx brake_demo = 0.5 \<and>
   fmul (vx brake_demo) (num 0.7) < 0.35 \<and>
   vx (setVX (fmul (vx brake_demo) (num 0.7)) brake_demo) = num 0.3 \<and>
   addFrictionX (num 0.7) brake_demo = brake_demo\<lparr>vx := num 0.3\<rparr>"
proof -
  have ok: "max_ok (maxVX slide_demo)" and v: "vx slide_demo = 0.25"
    and none: "maxVX slide_demo = None"
    by (simp_all add: slide_demo_def platformer_fields_def sprite_fields_def max_ok_def)
  have ok': "max_ok (maxVX brake_demo)" and v': "vx brake_demo = 0.5"
    and none': "maxVX brake_demo = None"
    by (simp_all add: brake_demo_def platformer_fields_def sprite_fields_def max_ok_def)
  have stored: "vx (setVX (fmul (vx slide_demo) (num 0.9)) slide_demo) = num 0.2"
    unfolding v by (simp add: setVX_clamp none clampV_def toFixed1_def dbl_eval)
  have below: "fmul (vx brake_demo) (num 0.7) < 0.35"
    unfolding v' by (simp add: dbl_eval)
  have stored': "vx (setVX (fmul (vx brake_demo) (num 0.7)) brake_demo) = num 0.3"
    unfolding v' by (simp add: setVX_clamp none' clampV_def toFixed1_def dbl_eval)
  have keep: "\<not> \<bar>num 0.3\<bar> < num 0.3"
    by simp
  have small: "\<bar>num 0.2\<bar> < num 0.3"
    by (simp add: dbl_eval)
  show ?thesis
    using ok v stored ok' v' below stored' keep small
      addFrictionX_snaps [OF ok, of "num 0.9"] addFrictionX_snaps [OF ok', of "num 0.7"]
    by simp
qed

section \<open>Platformer: jumping\<close>







section \<open>Platformer: gravity\<close>

lemma collide_refines:
  "gravity_collide me (g\<lparr>objs := (objs g)(me := s)\<rparr>) r =
     g\<lparr>objs := (objs g)(me := (if r = me then s else resolve_candidate s (objs g r)))\<rparr>"
  by (simp add: gravity_collide_def resolve_candidate_def Let_def setY_def upd_def)

lemma foldl_collide_refines:
  "foldl (gravity_collide me) (g\<lparr>objs := (objs g)(me := s)\<rparr>) rs =
     g\<lparr>objs := (objs g)(me :=
        foldl resolve_candidate s (map (objs g) (filter (\<lambda>r. r \<noteq> me) rs)))\<rparr>"
proof (induction rs arbitrary: s)
  case Nil
  show ?case by simp
next
  case (Cons r rs)
  show ?case
  proof (cases "r = me")
    case True
    then show ?thesis
      by (simp only: foldl_Cons collide_refines Cons.IH) simp
  next
    case False
    then show ?thesis
      by (simp only: foldl_Cons collide_refines Cons.IH) simp
  qed
qed

text \<open>
  C1 as stated fails in its last step: a platformer falling at its maximum velocity
  (\<open>vy = 10\<close>, \<open>maxVY = 10\<close>, \<open>gravityAcc = 0.2\<close>) that touches nothing is not grounded
  after \<open>doGravity\<close>, and its \<open>vy\<close> is still 10, not the sum of \<open>vy\<close> and \<open>gravityAcc\<close>.
\<close>

theorem doGravity_increment_counterexample:
  "vy (objs fall_demo 0) = 10 \<and> gravityAcc (objs fall_demo 0) = num 0.2 \<and>
   \<not> hasPlatformerBelow (objs (doGravity 0 fall_demo) 0) \<and>
   vy (objs (doGravity 0 fall_demo) 0) = 10 \<and>
   vy (objs (doGravity 0 fall_demo) 0) \<noteq>
     fadd (vy (objs fall_demo 0)) (gravityAcc (objs fall_demo 0))"
  by (simp add: doGravity_def Let_def upd_def setY_def gravity_collide_def
      getSpritesByType_def instanceof_def fall_demo_def platformer_fields_def
      sprite_fields_def Game_new_def setVY_def toFixed1_def dbl_eval)

text \<open>
  C1, amended. \<open>doGravity\<close> changes the platformer alone, and what it does to it is
  \<open>gravity_steps\<close> on the candidates other than itself, in the order of the candidate
  list: the candidate set is refreshed in check-all mode; \<open>hasPlatformerBelow\<close> is set
  to false; \<open>vy\<close> is added to \<open>y\<close>; each candidate that touches at its turn snaps \<open>y\<close>
  below it (\<open>vy < 0\<close>) or on top of it (setting \<open>hasPlatformerBelow\<close>), adds 0.1 if
  still touching, and writes 0 to \<open>vy\<close>; at the end, only if not grounded, the sum of
  \<open>vy\<close> and \<open>gravityAcc\<close> is written to \<open>vy\<close>. Each write of \<open>vy\<close> is a \<open>setVY\<close>: the
  value is rounded to one decimal and clamped into the range of \<open>maxVY\<close>. The examples
  land on a platform, hit one from beneath, land with the 0.1 nudge, and fall freely.
\<close>

theorem doGravity_steps:
  "doGravity me g =
     g\<lparr>objs := (objs g)(me :=
        gravity_steps (map (objs g) (filter (\<lambda>r. r \<noteq> me) (candidates me g)))
          ((objs g me)\<lparr>platformersToCheckCollision := candidates me g\<rparr>))\<rparr>"
  by (simp add: doGravity_def Let_def upd_def setY_def foldl_collide_refines
      gravity_steps_def candidates_def)

theorem doGravity_steps_witness:
  "sy (objs (doGravity 0 land_demo) 0) = 2 \<and>
   vy (objs (doGravity 0 land_demo) 0) = 0 \<and>
   hasPlatformerBelow (objs (doGravity 0 land_demo) 0) \<and>
   objs (doGravity 0 land_demo) 1 = objs land_demo 1 \<and>
   sy (objs (doGravity 0 bump_demo) 0) = 20 \<and>
   vy (objs (doGravity 0 bump_demo) 0) = num 0.2 \<and>
   \<not> hasPlatformerBelow (objs (doGravity 0 bump_demo) 0) \<and>
   sy (objs (doGravity 0 nudge_demo) 0) = num (- 0.9) \<and>
   vy (objs (doGravity 0 nudge_demo) 0) = 0 \<and>
   hasPlatformerBelow (objs (doGravity 0 nudge_demo) 0) \<and>
   sy (objs (doGravity 0 drift_demo) 0) = num 0.1 \<and>
   vy (objs (doGravity 0 drift_demo) 0) = num 0.3 \<and>
   \<not> hasPlatformerBelow (objs (doGravity 0 drift_demo) 0)"
proof -
  have cl: "candidates 0 land_demo = [0, 1]" and cb: "candidates 0 bump_demo = [0, 1]"
    and cn: "candidates 0 nudge_demo = [0, 1]" and cd: "candidates 0 drift_demo = [0]"
    by (simp_all add: candidates_def getSpritesByType_def instanceof_def land_demo_def
        bump_demo_def nudge_demo_def drift_demo_def platformer_fields_def sprite_fields_def
        Game_new_def)
  have land: "gravity_steps [objs land_demo (Suc 0)]
        ((objs land_demo 0)\<lparr>platformersToCheckCollision := [0, Suc 0]\<rparr>) =
      (objs land_demo 0)\<lparr>platformersToCheckCollision := [0, Suc 0], sy := 2, vy := 0,
        hasPlatformerBelow := True\<rparr>"
    by (simp add: gravity_steps_def resolve_candidate_def touching_dbl_def Let_def setVY_def
        toFixed1_def land_demo_def platformer_fields_def sprite_fields_def dbl_eval)
  have bump: "gravity_steps [objs bump_demo (Suc 0)]
        ((objs bump_demo 0)\<lparr>platformersToCheckCollision := [0, Suc 0]\<rparr>) =
      (objs bump_demo 0)\<lparr>platformersToCheckCollision := [0, Suc 0], sy := 20,
        vy := num 0.2\<rparr>"
    by (simp add: gravity_steps_def resolve_candidate_def touching_dbl_def Let_def setVY_def
        toFixed1_def bump_demo_def platformer_fields_def sprite_fields_def dbl_eval)
  have nudge: "gravity_steps [objs nudge_demo (Suc 0)]
        ((objs nudge_demo 0)\<lparr>platformersToCheckCollision := [0, Suc 0]\<rparr>) =
      (objs nudge_demo 0)\<lparr>platformersToCheckCollision := [0, Suc 0], sy := num (- 0.9),
        vy := 0, hasPlatformerBelow := True\<rparr>"
    by (simp add: gravity_steps_def resolve_candidate_def touching_dbl_def Let_def setVY_def
        toFixed1_def nudge_demo_def platformer_fields_def sprite_fields_def dbl_eval)
  have drift: "gravity_steps []
        ((objs drift_demo 0)\<lparr>platformersToCheckCollision := [0]\<rparr>) =
      (objs drift_demo 0)\<lparr>platformersToCheckCollision := [0], sy := num 0.1,
        vy := num 0.3\<rparr>"
    by (simp add: gravity_steps_def Let_def setVY_def toFixed1_def drift_demo_def
        platformer_fields_def sprite_fields_def dbl_eval)
  have hb: "\<not> hasPlatformerBelow (objs bump_demo 0)"
    and hd: "\<not> hasPlatformerBelow (objs drift_demo 0)"
    by (simp_all add: bump_demo_def drift_demo_def platformer_fields_def sprite_fields_def)
  show ?thesis
    using doGravity_steps [of 0 land_demo] doGravity_steps [of 0 bump_demo]
      doGravity_steps [of 0 nudge_demo] doGravity_steps [of 0 drift_demo] hb hd
    by (simp add: cl cb cn cd land bump nudge drift)
qed

section \<open>Engine loop: one frame\<close>




lemma frame_skip_bound:
  "(enableFrameSkipping e \<and> accumulatedTime e > fmul (minFrameTime e) (framesToSkip e) \<longrightarrow>
      accumulatedTime (frame_skip e) = 0) \<and>
   (\<not> (enableFrameSkipping e \<and> accumulatedTime e > fmul (minFrameTime e) (framesToSkip e)) \<longrightarrow>
      accumulatedTime (frame_skip e) \<le> fmul (minFrameTime e) 5)"
  by (simp add: frame_skip_def)













end

